theory Spec2Isabelle
  imports Complex_Main "HOL-Library.Sublist" "HOL-Library.AList"
begin

section \<open>The Xbox controller adapter of \<^verbatim>\<open>xbox_controller_windows.py\<close>\<close>

text \<open>
  The module polls a game controller through PyGame and turns the raw readings into a
  \<^verbatim>\<open>ControllerState\<close>. The embedding keeps the structure of the source: the enumerations
  are datatypes with their value, name and iteration order written out, the state
  classes are records, the raw joystick is a record that is passed through every call,
  and every \<^verbatim>\<open>raise\<close> is an \<open>Inl\<close> result.

  Python floats are modelled as reals: the module only compares a reading with the dead
  zone and passes it on, it never computes with it. The calls of the logger are left
  out: they change neither what a method returns nor what it raises.
\<close>

subsection \<open>Enumerations\<close>

datatype ButtonKeys =
  Button_A | Button_B | Button_X | Button_Y | Button_LB | Button_RB | Button_VIEW
  | Button_MENU | Button_LEFT_STICK | Button_RIGHT_STICK | Button_SCREENSHOT

fun ButtonKeys_value :: "ButtonKeys \<Rightarrow> int" where
  "ButtonKeys_value Button_A = 0"
| "ButtonKeys_value Button_B = 1"
| "ButtonKeys_value Button_X = 2"
| "ButtonKeys_value Button_Y = 3"
| "ButtonKeys_value Button_LB = 4"
| "ButtonKeys_value Button_RB = 5"
| "ButtonKeys_value Button_VIEW = 6"
| "ButtonKeys_value Button_MENU = 7"
| "ButtonKeys_value Button_LEFT_STICK = 8"
| "ButtonKeys_value Button_RIGHT_STICK = 9"
| "ButtonKeys_value Button_SCREENSHOT = 11"

fun ButtonKeys_name :: "ButtonKeys \<Rightarrow> string" where
  "ButtonKeys_name Button_A = ''A''"
| "ButtonKeys_name Button_B = ''B''"
| "ButtonKeys_name Button_X = ''X''"
| "ButtonKeys_name Button_Y = ''Y''"
| "ButtonKeys_name Button_LB = ''LB''"
| "ButtonKeys_name Button_RB = ''RB''"
| "ButtonKeys_name Button_VIEW = ''VIEW''"
| "ButtonKeys_name Button_MENU = ''MENU''"
| "ButtonKeys_name Button_LEFT_STICK = ''LEFT_STICK''"
| "ButtonKeys_name Button_RIGHT_STICK = ''RIGHT_STICK''"
| "ButtonKeys_name Button_SCREENSHOT = ''SCREENSHOT''"

text \<open>Iterating an \<^verbatim>\<open>Enum\<close> class yields its members in the order of their definition.\<close>

definition ButtonKeys_members :: "ButtonKeys list" where
  "ButtonKeys_members =
     [Button_A, Button_B, Button_X, Button_Y, Button_LB, Button_RB, Button_VIEW,
      Button_MENU, Button_LEFT_STICK, Button_RIGHT_STICK, Button_SCREENSHOT]"

datatype DPadKeys = HORIZONTAL | VERTICAL

fun DPadKeys_value :: "DPadKeys \<Rightarrow> int" where
  "DPadKeys_value HORIZONTAL = 0"
| "DPadKeys_value VERTICAL = 1"

datatype AxisKeys =
  LEFT_STICK_HORIZONTAL | LEFT_STICK_VERTICAL | LEFT_ANALOG_TRIGGER
  | RIGHT_STICK_HORIZONTAL | RIGHT_STICK_VERTICAL | RIGHT_ANALOG_TRIGGER

fun AxisKeys_value :: "AxisKeys \<Rightarrow> int" where
  "AxisKeys_value LEFT_STICK_HORIZONTAL = 0"
| "AxisKeys_value LEFT_STICK_VERTICAL = 1"
| "AxisKeys_value LEFT_ANALOG_TRIGGER = 4"
| "AxisKeys_value RIGHT_STICK_HORIZONTAL = 2"
| "AxisKeys_value RIGHT_STICK_VERTICAL = 3"
| "AxisKeys_value RIGHT_ANALOG_TRIGGER = 5"

definition AxisKeys_members :: "AxisKeys list" where
  "AxisKeys_members =
     [LEFT_STICK_HORIZONTAL, LEFT_STICK_VERTICAL, LEFT_ANALOG_TRIGGER,
      RIGHT_STICK_HORIZONTAL, RIGHT_STICK_VERTICAL, RIGHT_ANALOG_TRIGGER]"

subsection \<open>Errors and the rendering of their messages\<close>

text \<open>Every exception the module raises is a \<^verbatim>\<open>ValueError\<close> carrying a message.\<close>

datatype error = ValueError string

definition digit_char :: "nat \<Rightarrow> char" where
  "digit_char d = ''0123456789'' ! d"

fun str_nat :: "nat \<Rightarrow> string" where
  "str_nat n = (if n < 10 then [digit_char n] else str_nat (n div 10) @ [digit_char (n mod 10)])"

declare str_nat.simps [simp del]

definition str_int :: "int \<Rightarrow> string" where
  "str_int i = (if i < 0 then CHR ''-'' # str_nat (nat (- i)) else str_nat (nat i))"

text \<open>
  Calling an enumeration class with a value looks the member up by value and raises
  \<^verbatim>\<open>ValueError("<value> is not a valid <class>")\<close> when no member has it.
\<close>

definition AxisKeys_call :: "int \<Rightarrow> error + AxisKeys" where
  "AxisKeys_call i =
     (case find (\<lambda>k. AxisKeys_value k = i) AxisKeys_members of
        Some k \<Rightarrow> Inr k
      | None \<Rightarrow> Inl (ValueError (str_int i @ '' is not a valid _AxisKeys'')))"

definition ButtonKeys_call :: "int \<Rightarrow> error + ButtonKeys" where
  "ButtonKeys_call i =
     (case find (\<lambda>k. ButtonKeys_value k = i) ButtonKeys_members of
        Some k \<Rightarrow> Inr k
      | None \<Rightarrow> Inl (ValueError (str_int i @ '' is not a valid _ButtonKeys'')))"

text \<open>Python's \<^verbatim>\<open>sub in s\<close> on strings: \<open>sub\<close> occurs in \<open>s\<close> as a contiguous run.\<close>

fun contains :: "string \<Rightarrow> string \<Rightarrow> bool" where
  "contains [] sub = (sub = [])"
| "contains (c # cs) sub = (prefix sub (c # cs) \<or> contains cs sub)"

subsection \<open>The state classes\<close>

text \<open>
  Modelled from the spec: the classes \<^verbatim>\<open>StickState\<close>, \<^verbatim>\<open>ControllerAxesState\<close>,
  \<^verbatim>\<open>ControllerDPadState\<close> and \<^verbatim>\<open>ControllerState\<close> of \<^verbatim>\<open>game_controllers.models\<close> are
  imported by the module; their fields are the keyword arguments the module passes, and
  the two positional arguments of \<^verbatim>\<open>ControllerDPadState\<close> are horizontal and vertical.
\<close>

record StickState =
  horizontal_right :: real
  vertical_down :: real

record ControllerAxesState =
  left_stick :: StickState
  right_stick :: StickState
  left_analog_trigger :: real
  right_analog_trigger :: real

record ControllerDPadState =
  horizontal :: int
  vertical :: int

text \<open>
  The dataclass \<^verbatim>\<open>_ButtonPressedState\<close>; the fields are \<^verbatim>\<open>A\<close>, \<^verbatim>\<open>B\<close>, ... in the source
  and carry the prefix \<open>btn_\<close> here. Their order is the order of the class body.
\<close>

record ButtonPressedState =
  btn_A :: bool
  btn_B :: bool
  btn_X :: bool
  btn_Y :: bool
  btn_LB :: bool
  btn_RB :: bool
  btn_VIEW :: bool
  btn_MENU :: bool
  btn_SCREENSHOT :: bool
  btn_LEFT_STICK :: bool
  btn_RIGHT_STICK :: bool

text \<open>\<^verbatim>\<open>dataclasses.fields(self)\<close>: each field's name with its \<^verbatim>\<open>getattr\<close>, in field order.\<close>

definition dataclass_fields :: "(string \<times> (ButtonPressedState \<Rightarrow> bool)) list" where
  "dataclass_fields =
     [(''A'', btn_A), (''B'', btn_B), (''X'', btn_X), (''Y'', btn_Y), (''LB'', btn_LB),
      (''RB'', btn_RB), (''VIEW'', btn_VIEW), (''MENU'', btn_MENU),
      (''SCREENSHOT'', btn_SCREENSHOT), (''LEFT_STICK'', btn_LEFT_STICK),
      (''RIGHT_STICK'', btn_RIGHT_STICK)]"

definition get_pressed_buttons :: "ButtonPressedState \<Rightarrow> string list" where
  "get_pressed_buttons self = map fst (filter (\<lambda>field. snd field self) dataclass_fields)"

record ControllerState =
  axes :: ControllerAxesState
  buttons :: ButtonPressedState
  d_pad :: ControllerDPadState

subsection \<open>The raw joystick\<close>

text \<open>
  Modelled from the spec: the raw device handle (the PyGame joystick together with the
  event pump of \<^verbatim>\<open>PyGameConnector\<close>) reports a name and its axis and button counts,
  reads an axis, a button or a hat by index, and pumps the pending events. What the reads
  return can change only when events are pumped: \<open>frames w k\<close> holds the readings that
  are visible after the \<open>k\<close>-th pump. The handle records every call made on it.
\<close>

record readings =
  axis_value :: "int \<Rightarrow> real"
  button_value :: "int \<Rightarrow> bool"
  hat_value :: "int \<Rightarrow> int \<times> int"

datatype call = Pump | GetAxis int | GetButton int | GetHat int

record joystick =
  get_name :: string
  get_numaxes :: int
  get_numbuttons :: int
  frames :: "nat \<Rightarrow> readings"
  pumps :: nat
  calls :: "call list"

definition current :: "joystick \<Rightarrow> readings" where
  "current w = frames w (pumps w)"

text \<open>
  Modelled from the spec: \<^verbatim>\<open>PyGameConnector.get_events\<close> is not in the source file. It is
  the event pump of the raw handle: it returns nothing and drains the pending events,
  after which the next frame of readings is visible.
\<close>

definition get_events :: "joystick \<Rightarrow> joystick" where
  "get_events w = w\<lparr>pumps := pumps w + 1, calls := calls w @ [Pump]\<rparr>"

definition get_axis :: "int \<Rightarrow> joystick \<Rightarrow> real \<times> joystick" where
  "get_axis i w = (axis_value (current w) i, w\<lparr>calls := calls w @ [GetAxis i]\<rparr>)"

definition get_button :: "int \<Rightarrow> joystick \<Rightarrow> bool \<times> joystick" where
  "get_button i w = (button_value (current w) i, w\<lparr>calls := calls w @ [GetButton i]\<rparr>)"

definition get_hat :: "int \<Rightarrow> joystick \<Rightarrow> (int \<times> int) \<times> joystick" where
  "get_hat i w = (hat_value (current w) i, w\<lparr>calls := calls w @ [GetHat i]\<rparr>)"

text \<open>Indexing the pair a hat read returns; the module only uses the indices 0 and 1.\<close>

definition hat_item :: "int \<times> int \<Rightarrow> int \<Rightarrow> int" where
  "hat_item hat i = (if i = 0 then fst hat else snd hat)"

subsection \<open>The adapter\<close>

definition VOID_BUTTONS :: "int list" where
  "VOID_BUTTONS = [10, 12, 13, 14, 15]"

text \<open>
  The attributes \<^verbatim>\<open>__init__\<close> sets. The two dictionaries are association lists in
  insertion order; the joystick itself is passed to every call.
\<close>

record adapter =
  axis_states :: "real list"
  button_states :: "bool list"
  axis_ids :: "(int \<times> AxisKeys) list"
  button_ids :: "(int \<times> ButtonKeys) list"
  dead_zone :: real

text \<open>\<^verbatim>\<open>range(n)\<close> is the list of the integers from 0 up to \<open>n - 1\<close>, empty when \<open>n \<le> 0\<close>.\<close>

definition range_int :: "int \<Rightarrow> int list" where
  "range_int n = [0..n - 1]"

fun fill_axis_ids :: "int list \<Rightarrow> (int \<times> AxisKeys) list \<Rightarrow> error + (int \<times> AxisKeys) list" where
  "fill_axis_ids [] ids = Inr ids"
| "fill_axis_ids (i # rest) ids =
     (case AxisKeys_call i of
        Inl e \<Rightarrow> Inl e
      | Inr k \<Rightarrow> fill_axis_ids rest (AList.update i k ids))"

fun fill_button_ids :: "int list \<Rightarrow> (int \<times> ButtonKeys) list \<Rightarrow> error + (int \<times> ButtonKeys) list" where
  "fill_button_ids [] ids = Inr ids"
| "fill_button_ids (i # rest) ids =
     (case ButtonKeys_call i of
        Inl e \<Rightarrow> Inl e
      | Inr k \<Rightarrow> fill_button_ids rest (AList.update i k ids))"

text \<open>
  \<^verbatim>\<open>__init__\<close>, on the joystick the connector has created and initialised; \<open>platform\<close>
  is \<^verbatim>\<open>sys.platform\<close>. An \<open>Inr\<close> result is the adapter in its ready state.
\<close>

definition init :: "string \<Rightarrow> joystick \<Rightarrow> error + adapter" where
  "init platform w =
     (let name = get_name w in
      if \<not> prefix ''win'' platform then
        Inl (ValueError ''This class is only supported on Windows systems'')
      else if name \<noteq> ''Xbox Series X Controller'' then
        Inl (ValueError (''Xbox controller not detected. Controller detected was '' @ name))
      else
        (case fill_axis_ids (range_int (get_numaxes w)) [] of
           Inl e \<Rightarrow> Inl e
         | Inr a_ids \<Rightarrow>
            (let mapped_buttons =
                   filter (\<lambda>x. x \<notin> set VOID_BUTTONS) (range_int (get_numbuttons w)) in
             case fill_button_ids mapped_buttons [] of
               Inl e \<Rightarrow> Inl e
             | Inr b_ids \<Rightarrow>
                 Inr \<lparr>axis_states = replicate (nat (get_numaxes w)) 0,
                      button_states = replicate (nat (get_numbuttons w)) False,
                      axis_ids = a_ids,
                      button_ids = b_ids,
                      dead_zone = 7 / 100\<rparr>)))"

text \<open>
  The comprehension that collects the values of the pressed buttons: one button read per
  member, in the order the members are given.
\<close>

fun pressed_button_ids :: "ButtonKeys list \<Rightarrow> joystick \<Rightarrow> int list \<times> joystick" where
  "pressed_button_ids [] w = ([], w)"
| "pressed_button_ids (button # rest) w =
     (let (pressed, w) = get_button (ButtonKeys_value button) w;
          (ids, w) = pressed_button_ids rest w
      in (if pressed then ButtonKeys_value button # ids else ids, w))"

text \<open>\<^verbatim>\<open>[_ButtonKeys(button_id) for button_id in pressed_button_ids]\<close>\<close>

fun lookup_buttons :: "int list \<Rightarrow> error + ButtonKeys list" where
  "lookup_buttons [] = Inr []"
| "lookup_buttons (button_id # rest) =
     (case ButtonKeys_call button_id of
        Inl e \<Rightarrow> Inl e
      | Inr k \<Rightarrow> (case lookup_buttons rest of Inl e \<Rightarrow> Inl e | Inr ks \<Rightarrow> Inr (k # ks)))"

text \<open>
  \<^verbatim>\<open>get_state\<close> up to its \<^verbatim>\<open>return\<close>: the joystick after the calls, the state that is
  returned and the local list \<^verbatim>\<open>pressed_buttons\<close>, which the source only writes to the
  debug log.
\<close>

definition get_state_locals ::
  "adapter \<Rightarrow> joystick \<Rightarrow> error + ((ControllerState \<times> ButtonKeys list) \<times> joystick)" where
  "get_state_locals self w0 =
     (let w = get_events w0;
          (left_stick_horizontal, w) = get_axis (AxisKeys_value LEFT_STICK_HORIZONTAL) w;
          (left_stick_vertical, w) = get_axis (AxisKeys_value LEFT_STICK_VERTICAL) w;
          (right_stick_horizontal, w) = get_axis (AxisKeys_value RIGHT_STICK_HORIZONTAL) w;
          (right_stick_vertical, w) = get_axis (AxisKeys_value RIGHT_STICK_VERTICAL) w;
          (left_analog_trigger', w) = get_axis (AxisKeys_value LEFT_ANALOG_TRIGGER) w;
          (right_analog_trigger', w) = get_axis (AxisKeys_value RIGHT_ANALOG_TRIGGER) w;
          left_stick_horizontal =
            (if \<bar>left_stick_horizontal\<bar> < dead_zone self then 0 else left_stick_horizontal);
          left_stick_vertical =
            (if \<bar>left_stick_vertical\<bar> < dead_zone self then 0 else left_stick_vertical);
          right_stick_horizontal =
            (if \<bar>right_stick_horizontal\<bar> < dead_zone self then 0 else right_stick_horizontal);
          right_stick_vertical =
            (if \<bar>right_stick_vertical\<bar> < dead_zone self then 0 else right_stick_vertical);
          left_analog_trigger' =
            (if \<bar>left_analog_trigger'\<bar> < dead_zone self then 0 else left_analog_trigger');
          right_analog_trigger' =
            (if \<bar>right_analog_trigger'\<bar> < dead_zone self then 0 else right_analog_trigger');
          axes' = \<lparr>left_stick = \<lparr>horizontal_right = left_stick_horizontal,
                                 vertical_down = left_stick_vertical\<rparr>,
                   right_stick = \<lparr>horizontal_right = right_stick_horizontal,
                                  vertical_down = right_stick_vertical\<rparr>,
                   left_analog_trigger = left_analog_trigger',
                   right_analog_trigger = right_analog_trigger'\<rparr>;
          (a, w) = get_button (ButtonKeys_value Button_A) w;
          (b, w) = get_button (ButtonKeys_value Button_B) w;
          (x, w) = get_button (ButtonKeys_value Button_X) w;
          (y, w) = get_button (ButtonKeys_value Button_Y) w;
          (lb, w) = get_button (ButtonKeys_value Button_LB) w;
          (rb, w) = get_button (ButtonKeys_value Button_RB) w;
          (view, w) = get_button (ButtonKeys_value Button_VIEW) w;
          (menu, w) = get_button (ButtonKeys_value Button_MENU) w;
          (screenshot, w) = get_button (ButtonKeys_value Button_SCREENSHOT) w;
          (left_stick', w) = get_button (ButtonKeys_value Button_LEFT_STICK) w;
          (right_stick', w) = get_button (ButtonKeys_value Button_RIGHT_STICK) w;
          buttons' = \<lparr>btn_A = a, btn_B = b, btn_X = x, btn_Y = y, btn_LB = lb, btn_RB = rb,
                      btn_VIEW = view, btn_MENU = menu, btn_SCREENSHOT = screenshot,
                      btn_LEFT_STICK = left_stick', btn_RIGHT_STICK = right_stick'\<rparr>;
          (hat, w) = get_hat 0 w;
          d_pad_state = \<lparr>horizontal = hat_item hat (DPadKeys_value HORIZONTAL),
                         vertical = hat_item hat (DPadKeys_value VERTICAL)\<rparr>;
          (ids, w) = pressed_button_ids ButtonKeys_members w
      in case lookup_buttons ids of
           Inl e \<Rightarrow> Inl e
         | Inr pressed_buttons \<Rightarrow>
             Inr ((\<lparr>axes = axes', buttons = buttons', d_pad = d_pad_state\<rparr>, pressed_buttons), w))"

definition get_state :: "adapter \<Rightarrow> joystick \<Rightarrow> error + (ControllerState \<times> joystick)" where
  "get_state self w =
     (case get_state_locals self w of
        Inl e \<Rightarrow> Inl e
      | Inr ((state, pressed_buttons), w') \<Rightarrow> Inr (state, w'))"

subsection \<open>Concrete joysticks\<close>

text \<open>
  The readings of the end-to-end scenario: the six axes, the buttons A and X held down
  and the hat at right and down.
\<close>

definition scenario_readings :: readings where
  "scenario_readings =
     \<lparr>axis_value = (\<lambda>i. if i = 0 then 3 / 100 else if i = 1 then - 1 / 2
                        else if i = 2 then 2 / 100 else if i = 3 then 9 / 10
                        else if i = 4 then 0 else if i = 5 then 2 / 10 else 0),
      button_value = (\<lambda>i. i = 0 \<or> i = 2),
      hat_value = (\<lambda>i. (1, - 1))\<rparr>"

text \<open>An Xbox Series X controller as PyGame reports it: six axes and sixteen buttons.\<close>

definition xbox_pad :: joystick where
  "xbox_pad =
     \<lparr>get_name = ''Xbox Series X Controller'', get_numaxes = 6, get_numbuttons = 16,
      frames = (\<lambda>k. scenario_readings), pumps = 0, calls = []\<rparr>"

text \<open>The adapter \<^verbatim>\<open>__init__\<close> builds for it.\<close>

definition xbox_adapter :: adapter where
  "xbox_adapter =
     \<lparr>axis_states = [0, 0, 0, 0, 0, 0],
      button_states = replicate 16 False,
      axis_ids =
        [(0, LEFT_STICK_HORIZONTAL), (1, LEFT_STICK_VERTICAL), (2, RIGHT_STICK_HORIZONTAL),
         (3, RIGHT_STICK_VERTICAL), (4, LEFT_ANALOG_TRIGGER), (5, RIGHT_ANALOG_TRIGGER)],
      button_ids =
        [(0, Button_A), (1, Button_B), (2, Button_X), (3, Button_Y), (4, Button_LB),
         (5, Button_RB), (6, Button_VIEW), (7, Button_MENU), (8, Button_LEFT_STICK),
         (9, Button_RIGHT_STICK), (11, Button_SCREENSHOT)],
      dead_zone = 7 / 100\<rparr>"

text \<open>A device with the same name and readings that reports two axes and three buttons.\<close>

definition small_pad :: joystick where
  "small_pad = xbox_pad\<lparr>get_numaxes := 2, get_numbuttons := 3\<rparr>"

definition small_adapter :: adapter where
  "small_adapter =
     \<lparr>axis_states = [0, 0],
      button_states = [False, False, False],
      axis_ids = [(0, LEFT_STICK_HORIZONTAL), (1, LEFT_STICK_VERTICAL)],
      button_ids = [(0, Button_A), (1, Button_B), (2, Button_X)],
      dead_zone = 7 / 100\<rparr>"

text \<open>Devices that report one axis, or one button, more than the enumerations know.\<close>

definition seven_axes_pad :: joystick where
  "seven_axes_pad = xbox_pad\<lparr>get_numaxes := 7\<rparr>"

definition seventeen_buttons_pad :: joystick where
  "seventeen_buttons_pad = xbox_pad\<lparr>get_numbuttons := 17\<rparr>"

text \<open>Another controller model.\<close>

definition other_pad :: joystick where
  "other_pad = xbox_pad\<lparr>get_name := ''PS4 Controller''\<rparr>"

text \<open>The Xbox controller with the left stick button and the screenshot button held down.\<close>

definition stick_and_screenshot :: readings where
  "stick_and_screenshot = scenario_readings\<lparr>button_value := (\<lambda>i. i = 8 \<or> i = 11)\<rparr>"

definition pressed_pad :: joystick where
  "pressed_pad = xbox_pad\<lparr>frames := (\<lambda>k. stick_and_screenshot)\<rparr>"

subsection \<open>One poll in closed form\<close>

text \<open>
  The two values below are not in the source. They write out, for the proofs, what a call
  of \<^verbatim>\<open>get_state\<close> assembles from the readings \<open>r\<close> under the dead zone \<open>dz\<close>, and the
  reads it makes after its pump; \<open>get_state_eq\<close> proves that the embedding of
  \<^verbatim>\<open>get_state\<close> computes exactly these.
\<close>

definition polled_state :: "real \<Rightarrow> readings \<Rightarrow> ControllerState" where
  "polled_state dz r =
     \<lparr>axes =
        \<lparr>left_stick =
           \<lparr>horizontal_right = (if \<bar>axis_value r 0\<bar> < dz then 0 else axis_value r 0),
            vertical_down = (if \<bar>axis_value r 1\<bar> < dz then 0 else axis_value r 1)\<rparr>,
         right_stick =
           \<lparr>horizontal_right = (if \<bar>axis_value r 2\<bar> < dz then 0 else axis_value r 2),
            vertical_down = (if \<bar>axis_value r 3\<bar> < dz then 0 else axis_value r 3)\<rparr>,
         left_analog_trigger = (if \<bar>axis_value r 4\<bar> < dz then 0 else axis_value r 4),
         right_analog_trigger = (if \<bar>axis_value r 5\<bar> < dz then 0 else axis_value r 5)\<rparr>,
      buttons =
        \<lparr>btn_A = button_value r 0, btn_B = button_value r 1, btn_X = button_value r 2,
         btn_Y = button_value r 3, btn_LB = button_value r 4, btn_RB = button_value r 5,
         btn_VIEW = button_value r 6, btn_MENU = button_value r 7,
         btn_SCREENSHOT = button_value r 11, btn_LEFT_STICK = button_value r 8,
         btn_RIGHT_STICK = button_value r 9\<rparr>,
      d_pad = \<lparr>horizontal = fst (hat_value r 0), vertical = snd (hat_value r 0)\<rparr>\<rparr>"

definition poll_reads :: "call list" where
  "poll_reads =
     map GetAxis [0, 1, 2, 3, 4, 5] @ map GetButton [0, 1, 2, 3, 4, 5, 6, 7, 11, 8, 9]
     @ GetHat 0 # map GetButton [0, 1, 2, 3, 4, 5, 6, 7, 8, 9, 11]"

section \<open>Properties\<close>

subsection \<open>Evaluating the constructor\<close>

lemma range_int_2: "range_int 2 = [0, 1]"
  by (simp add: range_int_def upto_rec1)

lemma range_int_3: "range_int 3 = [0, 1, 2]"
  by (simp add: range_int_def upto_rec1)

lemma range_int_6: "range_int 6 = [0, 1, 2, 3, 4, 5]"
  by (simp add: range_int_def upto_rec1)

lemma range_int_7: "range_int 7 = [0, 1, 2, 3, 4, 5, 6]"
  by (simp add: range_int_def upto_rec1)

lemma range_int_16: "range_int 16 = [0, 1, 2, 3, 4, 5, 6, 7, 8, 9, 10, 11, 12, 13, 14, 15]"
  by (simp add: range_int_def upto_rec1)

lemma range_int_17:
  "range_int 17 = [0, 1, 2, 3, 4, 5, 6, 7, 8, 9, 10, 11, 12, 13, 14, 15, 16]"
  by (simp add: range_int_def upto_rec1)

lemmas range_int_evals =
  range_int_2 range_int_3 range_int_6 range_int_7 range_int_16 range_int_17

lemmas init_evals =
  init_def Let_def range_int_evals VOID_BUTTONS_def AxisKeys_call_def ButtonKeys_call_def
  AxisKeys_members_def ButtonKeys_members_def

lemma in_range_int: "i \<in> set (range_int n) \<longleftrightarrow> 0 \<le> i \<and> i < n"
  by (auto simp: range_int_def)

lemma init_xbox_pad: "init ''win32'' xbox_pad = Inr xbox_adapter"
  by (simp add: init_evals eval_nat_numeral xbox_pad_def xbox_adapter_def)

lemma init_small_pad: "init ''win32'' small_pad = Inr small_adapter"
  by (simp add: init_evals eval_nat_numeral xbox_pad_def small_pad_def small_adapter_def)

lemma init_pressed_pad: "init ''win32'' pressed_pad = Inr xbox_adapter"
  by (simp add: init_evals eval_nat_numeral xbox_pad_def pressed_pad_def xbox_adapter_def)

lemma init_dead_zone: "init platform w = Inr self \<Longrightarrow> dead_zone self = 7 / 100"
  by (auto simp: init_def Let_def split: if_splits sum.splits)

lemma fill_axis_ids_fails:
  "i \<in> set xs \<Longrightarrow> AxisKeys_call i = Inl e \<Longrightarrow> \<exists>e'. fill_axis_ids xs ids = Inl e'"
  by (induction xs arbitrary: ids) (auto split: sum.splits)

lemma fill_button_ids_fails:
  "i \<in> set xs \<Longrightarrow> ButtonKeys_call i = Inl e \<Longrightarrow> \<exists>e'. fill_button_ids xs ids = Inl e'"
  by (induction xs arbitrary: ids) (auto split: sum.splits)

lemma AxisKeys_call_unknown:
  "i \<notin> AxisKeys_value ` set AxisKeys_members \<Longrightarrow> \<exists>e. AxisKeys_call i = Inl e"
  by (auto simp: AxisKeys_call_def find_None_iff split: option.splits)

lemma ButtonKeys_call_unknown:
  "i \<notin> ButtonKeys_value ` set ButtonKeys_members \<Longrightarrow> \<exists>e. ButtonKeys_call i = Inl e"
  by (auto simp: ButtonKeys_call_def find_None_iff split: option.splits)

lemma error_is_ValueError: "\<exists>msg. e = ValueError msg"
  by (cases e) simp

subsection \<open>Substrings\<close>

lemma contains_self: "contains s s"
  by (cases s) simp_all

lemma contains_append: "contains (pre @ s) s"
  by (induction pre) (simp_all add: contains_self)

lemma contains_sublist: "contains s sub \<longleftrightarrow> sublist sub s"
  by (induction s) (simp_all add: sublist_Cons_right)

subsection \<open>What one poll reads and returns\<close>

lemma current_calls [simp]: "current (w\<lparr>calls := c\<rparr>) = current w"
  by (simp add: current_def)

lemma current_get_events [simp]: "current (get_events w) = frames w (Suc (pumps w))"
  by (simp add: current_def get_events_def)

lemma pressed_button_ids_eq:
  "pressed_button_ids ks w =
     (map ButtonKeys_value (filter (\<lambda>k. button_value (current w) (ButtonKeys_value k)) ks),
      w\<lparr>calls := calls w @ map (\<lambda>k. GetButton (ButtonKeys_value k)) ks\<rparr>)"
  by (induction ks arbitrary: w) (simp_all add: get_button_def)

lemma ButtonKeys_call_value [simp]: "ButtonKeys_call (ButtonKeys_value k) = Inr k"
  by (cases k) (simp_all add: ButtonKeys_call_def ButtonKeys_members_def)

lemma lookup_buttons_values [simp]: "lookup_buttons (map ButtonKeys_value ks) = Inr ks"
  by (induction ks) simp_all

text \<open>
  The whole of one call: it never raises, the state is built from the readings that are
  visible after its one pump, and the joystick has seen the pump followed by 29 reads.
\<close>

lemma get_state_locals_eq:
  "get_state_locals self w =
     Inr ((polled_state (dead_zone self) (frames w (Suc (pumps w))),
           filter (\<lambda>k. button_value (frames w (Suc (pumps w))) (ButtonKeys_value k))
             ButtonKeys_members),
          w\<lparr>pumps := Suc (pumps w), calls := calls w @ Pump # poll_reads\<rparr>)"
  unfolding get_state_locals_def polled_state_def poll_reads_def
  apply (simp add: get_axis_def get_button_def get_hat_def pressed_button_ids_eq hat_item_def Let_def)
  apply (simp add: get_events_def ButtonKeys_members_def)
  done

lemma get_state_eq:
  "get_state self w =
     Inr (polled_state (dead_zone self) (frames w (Suc (pumps w))),
          w\<lparr>pumps := Suc (pumps w), calls := calls w @ Pump # poll_reads\<rparr>)"
  unfolding get_state_def by (simp add: get_state_locals_eq)

lemma filter_Cons_append: "filter P (x # xs) = (if P x then [x] else []) @ filter P xs"
  by simp

lemma map_if_single: "map f (if c then [x] else []) = (if c then [f x] else [])"
  by simp

lemma get_pressed_buttons_eq:
  "get_pressed_buttons
     \<lparr>btn_A = p Button_A, btn_B = p Button_B, btn_X = p Button_X, btn_Y = p Button_Y,
      btn_LB = p Button_LB, btn_RB = p Button_RB, btn_VIEW = p Button_VIEW,
      btn_MENU = p Button_MENU, btn_SCREENSHOT = p Button_SCREENSHOT,
      btn_LEFT_STICK = p Button_LEFT_STICK, btn_RIGHT_STICK = p Button_RIGHT_STICK\<rparr> =
   map ButtonKeys_name
     (filter p [Button_A, Button_B, Button_X, Button_Y, Button_LB, Button_RB, Button_VIEW,
                Button_MENU, Button_SCREENSHOT, Button_LEFT_STICK, Button_RIGHT_STICK])"
  unfolding get_pressed_buttons_def dataclass_fields_def
  by (simp only: filter_Cons_append filter.simps(1) map_append map_if_single list.map
      ButtonKeys_name.simps fst_conv snd_conv ButtonPressedState.simps append_Nil2)

lemma buttons_polled_state:
  "buttons (polled_state dz r) =
     \<lparr>btn_A = button_value r (ButtonKeys_value Button_A),
      btn_B = button_value r (ButtonKeys_value Button_B),
      btn_X = button_value r (ButtonKeys_value Button_X),
      btn_Y = button_value r (ButtonKeys_value Button_Y),
      btn_LB = button_value r (ButtonKeys_value Button_LB),
      btn_RB = button_value r (ButtonKeys_value Button_RB),
      btn_VIEW = button_value r (ButtonKeys_value Button_VIEW),
      btn_MENU = button_value r (ButtonKeys_value Button_MENU),
      btn_SCREENSHOT = button_value r (ButtonKeys_value Button_SCREENSHOT),
      btn_LEFT_STICK = button_value r (ButtonKeys_value Button_LEFT_STICK),
      btn_RIGHT_STICK = button_value r (ButtonKeys_value Button_RIGHT_STICK)\<rparr>"
  by (simp add: polled_state_def)

lemma get_pressed_buttons_polled:
  "get_pressed_buttons (buttons (polled_state dz r)) =
   map ButtonKeys_name
     (filter (\<lambda>k. button_value r (ButtonKeys_value k))
        [Button_A, Button_B, Button_X, Button_Y, Button_LB, Button_RB, Button_VIEW,
         Button_MENU, Button_SCREENSHOT, Button_LEFT_STICK, Button_RIGHT_STICK])"
  unfolding buttons_polled_state
  by (rule get_pressed_buttons_eq [of "\<lambda>k. button_value r (ButtonKeys_value k)"])

lemma subseq_map_filter: "subseq (map f (filter P xs)) (map f xs)"
  by (simp add: subseq_map)

lemma A_and_X_only:
  "(ButtonKeys_value k = 0 \<or> ButtonKeys_value k = 2) \<longleftrightarrow> k = Button_A \<or> k = Button_X"
  by (cases k) simp_all

subsection \<open>Dead zone\<close>

text \<open>
  Claim C1. On an adapter that \<^verbatim>\<open>__init__\<close> has built, \<^verbatim>\<open>get_state\<close> returns, and each
  of the six analog channels (the two axes of the left stick, the two axes of the right
  stick, the left and the right trigger) holds exactly 0 when the absolute value of the
  reading of its axis is below 0.07, and the reading itself, unchanged, otherwise. The
  readings are those visible after the pump of the call.
\<close>

theorem dead_zone_normalization:
  assumes "init platform w0 = Inr self"
  shows "\<exists>s w'. get_state self w = Inr (s, w') \<and>
    horizontal_right (left_stick (axes s)) =
      (if \<bar>axis_value (frames w (Suc (pumps w))) (AxisKeys_value LEFT_STICK_HORIZONTAL)\<bar> < 7 / 100
       then 0
       else axis_value (frames w (Suc (pumps w))) (AxisKeys_value LEFT_STICK_HORIZONTAL)) \<and>
    vertical_down (left_stick (axes s)) =
      (if \<bar>axis_value (frames w (Suc (pumps w))) (AxisKeys_value LEFT_STICK_VERTICAL)\<bar> < 7 / 100
       then 0
       else axis_value (frames w (Suc (pumps w))) (AxisKeys_value LEFT_STICK_VERTICAL)) \<and>
    horizontal_right (right_stick (axes s)) =
      (if \<bar>axis_value (frames w (Suc (pumps w))) (AxisKeys_value RIGHT_STICK_HORIZONTAL)\<bar> < 7 / 100
       then 0
       else axis_value (frames w (Suc (pumps w))) (AxisKeys_value RIGHT_STICK_HORIZONTAL)) \<and>
    vertical_down (right_stick (axes s)) =
      (if \<bar>axis_value (frames w (Suc (pumps w))) (AxisKeys_value RIGHT_STICK_VERTICAL)\<bar> < 7 / 100
       then 0
       else axis_value (frames w (Suc (pumps w))) (AxisKeys_value RIGHT_STICK_VERTICAL)) \<and>
    left_analog_trigger (axes s) =
      (if \<bar>axis_value (frames w (Suc (pumps w))) (AxisKeys_value LEFT_ANALOG_TRIGGER)\<bar> < 7 / 100
       then 0
       else axis_value (frames w (Suc (pumps w))) (AxisKeys_value LEFT_ANALOG_TRIGGER)) \<and>
    right_analog_trigger (axes s) =
      (if \<bar>axis_value (frames w (Suc (pumps w))) (AxisKeys_value RIGHT_ANALOG_TRIGGER)\<bar> < 7 / 100
       then 0
       else axis_value (frames w (Suc (pumps w))) (AxisKeys_value RIGHT_ANALOG_TRIGGER))"
proof -
  have "dead_zone self = 7 / 100"
    using assms by (rule init_dead_zone)
  then show ?thesis
    by (simp add: get_state_eq polled_state_def)
qed

theorem dead_zone_normalization_witness:
  "init ''win32'' xbox_pad = Inr xbox_adapter \<and>
   (\<exists>s w'. get_state xbox_adapter xbox_pad = Inr (s, w') \<and>
      horizontal_right (left_stick (axes s)) = 0 \<and>
      vertical_down (left_stick (axes s)) = - 1 / 2 \<and>
      horizontal_right (right_stick (axes s)) = 0 \<and>
      vertical_down (right_stick (axes s)) = 9 / 10 \<and>
      left_analog_trigger (axes s) = 0 \<and>
      right_analog_trigger (axes s) = 2 / 10)"
proof -
  have ready: "init ''win32'' xbox_pad = Inr xbox_adapter"
    by (rule init_xbox_pad)
  have "\<exists>s w'. get_state xbox_adapter xbox_pad = Inr (s, w') \<and>
      horizontal_right (left_stick (axes s)) = 0 \<and>
      vertical_down (left_stick (axes s)) = - 1 / 2 \<and>
      horizontal_right (right_stick (axes s)) = 0 \<and>
      vertical_down (right_stick (axes s)) = 9 / 10 \<and>
      left_analog_trigger (axes s) = 0 \<and>
      right_analog_trigger (axes s) = 2 / 10"
    using dead_zone_normalization [OF ready, of xbox_pad]
    by (simp add: xbox_pad_def scenario_readings_def)
  with ready show ?thesis by simp
qed

text \<open>
  Claim C2. When the readings of the axes 0 to 5 (left stick horizontal and vertical,
  right stick horizontal and vertical, left trigger, right trigger) are 0.03, -0.5, 0.02,
  0.9, 0.0 and 0.2, \<^verbatim>\<open>get_state\<close> on an adapter built by \<^verbatim>\<open>__init__\<close> returns the axes
  state with left stick (0.0, -0.5), right stick (0.0, 0.9), left trigger 0.0 and right
  trigger 0.2.
\<close>

theorem end_to_end_scenario:
  assumes "init platform w0 = Inr self"
    and "map (axis_value (frames w (Suc (pumps w)))) [0, 1, 2, 3, 4, 5] =
           [3 / 100, - 5 / 10, 2 / 100, 9 / 10, 0, 2 / 10]"
  shows "\<exists>s w'. get_state self w = Inr (s, w') \<and>
    axes s = \<lparr>left_stick = \<lparr>horizontal_right = 0, vertical_down = - 5 / 10\<rparr>,
              right_stick = \<lparr>horizontal_right = 0, vertical_down = 9 / 10\<rparr>,
              left_analog_trigger = 0,
              right_analog_trigger = 2 / 10\<rparr>"
proof -
  have "dead_zone self = 7 / 100"
    using assms(1) by (rule init_dead_zone)
  with assms(2) show ?thesis
    by (simp add: get_state_eq polled_state_def)
qed

theorem end_to_end_scenario_witness:
  "init ''win32'' xbox_pad = Inr xbox_adapter \<and>
   map (axis_value (frames xbox_pad (Suc (pumps xbox_pad)))) [0, 1, 2, 3, 4, 5] =
     [3 / 100, - 5 / 10, 2 / 100, 9 / 10, 0, 2 / 10] \<and>
   (\<exists>s w'. get_state xbox_adapter xbox_pad = Inr (s, w') \<and>
      axes s = \<lparr>left_stick = \<lparr>horizontal_right = 0, vertical_down = - 5 / 10\<rparr>,
                right_stick = \<lparr>horizontal_right = 0, vertical_down = 9 / 10\<rparr>,
                left_analog_trigger = 0,
                right_analog_trigger = 2 / 10\<rparr>)"
proof -
  have ready: "init ''win32'' xbox_pad = Inr xbox_adapter"
    by (rule init_xbox_pad)
  have raw: "map (axis_value (frames xbox_pad (Suc (pumps xbox_pad)))) [0, 1, 2, 3, 4, 5] =
     [3 / 100, - 5 / 10, 2 / 100, 9 / 10, 0, 2 / 10]"
    by (simp add: xbox_pad_def scenario_readings_def)
  from ready raw end_to_end_scenario [OF ready raw] show ?thesis
    by (intro conjI)
qed

subsection \<open>Construction failures\<close>

text \<open>
  Claim C3. When the joystick reports a name other than \<^verbatim>\<open>Xbox Series X Controller\<close>,
  \<^verbatim>\<open>__init__\<close> raises a \<^verbatim>\<open>ValueError\<close> on every platform and whatever the joystick
  reads or counts: no adapter is built.
\<close>

theorem wrong_device_name_rejected:
  assumes "get_name w \<noteq> ''Xbox Series X Controller''"
  shows "\<exists>msg. init platform w = Inl (ValueError msg)"
  using assms by (simp add: init_def Let_def)

theorem wrong_device_name_rejected_witness:
  "get_name other_pad \<noteq> ''Xbox Series X Controller'' \<and>
   init ''win32'' other_pad =
     Inl (ValueError ''Xbox controller not detected. Controller detected was PS4 Controller'')"
proof -
  have differs: "get_name other_pad \<noteq> ''Xbox Series X Controller''"
    by (simp add: other_pad_def xbox_pad_def)
  from wrong_device_name_rejected [OF differs, of "''win32''"]
  have "\<exists>msg. init ''win32'' other_pad = Inl (ValueError msg)" .
  then have "init ''win32'' other_pad =
     Inl (ValueError ''Xbox controller not detected. Controller detected was PS4 Controller'')"
    by (simp add: init_def Let_def other_pad_def xbox_pad_def)
  with differs show ?thesis by simp
qed

text \<open>
  Claim C4. When the axis count of the joystick covers an index that is not the value of
  an axis key, or its button count covers an index that is neither in \<^verbatim>\<open>VOID_BUTTONS\<close>
  nor the value of a button key, \<^verbatim>\<open>__init__\<close> raises a \<^verbatim>\<open>ValueError\<close>: the index is not
  skipped.
\<close>

theorem unmapped_index_rejected:
  assumes "(\<exists>i. 0 \<le> i \<and> i < get_numaxes w \<and> i \<notin> AxisKeys_value ` set AxisKeys_members) \<or>
           (\<exists>i. 0 \<le> i \<and> i < get_numbuttons w \<and> i \<notin> set VOID_BUTTONS \<and>
                i \<notin> ButtonKeys_value ` set ButtonKeys_members)"
  shows "\<exists>msg. init platform w = Inl (ValueError msg)"
proof -
  have "\<exists>e. init platform w = Inl e"
    using assms
  proof
    assume "\<exists>i. 0 \<le> i \<and> i < get_numaxes w \<and> i \<notin> AxisKeys_value ` set AxisKeys_members"
    then obtain i where i: "i \<in> set (range_int (get_numaxes w))"
      and "i \<notin> AxisKeys_value ` set AxisKeys_members"
      by (auto simp: in_range_int)
    then obtain e where "AxisKeys_call i = Inl e"
      using AxisKeys_call_unknown by blast
    from fill_axis_ids_fails [OF i this] obtain e' where
      "fill_axis_ids (range_int (get_numaxes w)) [] = Inl e'" by blast
    then show ?thesis
      by (simp add: init_def Let_def)
  next
    assume "\<exists>i. 0 \<le> i \<and> i < get_numbuttons w \<and> i \<notin> set VOID_BUTTONS \<and>
                i \<notin> ButtonKeys_value ` set ButtonKeys_members"
    then obtain i where
      i: "i \<in> set (filter (\<lambda>x. x \<notin> set VOID_BUTTONS) (range_int (get_numbuttons w)))"
      and "i \<notin> ButtonKeys_value ` set ButtonKeys_members"
      by (auto simp: in_range_int)
    then obtain e where "ButtonKeys_call i = Inl e"
      using ButtonKeys_call_unknown by blast
    from fill_button_ids_fails [OF i this] obtain e' where
      "fill_button_ids (filter (\<lambda>x. x \<notin> set VOID_BUTTONS) (range_int (get_numbuttons w))) [] = Inl e'"
      by blast
    then show ?thesis
      by (auto simp: init_def Let_def split: sum.splits)
  qed
  then show ?thesis
    using error_is_ValueError by metis
qed

theorem unmapped_index_rejected_witness:
  "(0::int) \<le> 6 \<and> 6 < get_numaxes seven_axes_pad \<and> 6 \<notin> AxisKeys_value ` set AxisKeys_members \<and>
   init ''win32'' seven_axes_pad = Inl (ValueError ''6 is not a valid _AxisKeys'') \<and>
   (0::int) \<le> 16 \<and> 16 < get_numbuttons seventeen_buttons_pad \<and> 16 \<notin> set VOID_BUTTONS \<and>
   16 \<notin> ButtonKeys_value ` set ButtonKeys_members \<and>
   init ''win32'' seventeen_buttons_pad = Inl (ValueError ''16 is not a valid _ButtonKeys'')"
proof -
  have axis: "(0::int) \<le> 6 \<and> 6 < get_numaxes seven_axes_pad \<and>
      6 \<notin> AxisKeys_value ` set AxisKeys_members"
    by (simp add: seven_axes_pad_def xbox_pad_def AxisKeys_members_def)
  have button: "(0::int) \<le> 16 \<and> 16 < get_numbuttons seventeen_buttons_pad \<and>
      16 \<notin> set VOID_BUTTONS \<and> 16 \<notin> ButtonKeys_value ` set ButtonKeys_members"
    by (simp add: seventeen_buttons_pad_def xbox_pad_def VOID_BUTTONS_def ButtonKeys_members_def)
  have "\<exists>msg. init ''win32'' seven_axes_pad = Inl (ValueError msg)"
    using axis by (intro unmapped_index_rejected) blast
  then have r1: "init ''win32'' seven_axes_pad = Inl (ValueError ''6 is not a valid _AxisKeys'')"
    by (simp add: init_evals seven_axes_pad_def xbox_pad_def str_int_def str_nat.simps digit_char_def)
  have "\<exists>msg. init ''win32'' seventeen_buttons_pad = Inl (ValueError msg)"
    using button by (intro unmapped_index_rejected) blast
  then have r2: "init ''win32'' seventeen_buttons_pad =
      Inl (ValueError ''16 is not a valid _ButtonKeys'')"
    by (simp add: init_evals seventeen_buttons_pad_def xbox_pad_def str_int_def str_nat.simps
        digit_char_def)
  from axis button r1 r2 show ?thesis by simp
qed

subsection \<open>Pressed buttons\<close>

text \<open>
  Claim C5, as stated, fails for the list a caller gets from the returned state. With the
  left stick button (value 8) and the screenshot button (value 11) held down,
  \<^verbatim>\<open>get_pressed_buttons\<close> of the returned button state is SCREENSHOT, LEFT_STICK: the
  dataclass declares the field SCREENSHOT before LEFT_STICK, the enumeration declares
  LEFT_STICK before SCREENSHOT, so the list is not in the declaration order of the
  enumeration.
\<close>

theorem pressed_buttons_order_counterexample:
  "init ''win32'' pressed_pad = Inr xbox_adapter \<and>
   \<not> isl (get_state xbox_adapter pressed_pad) \<and>
   get_pressed_buttons (buttons (fst (projr (get_state xbox_adapter pressed_pad)))) =
     [''SCREENSHOT'', ''LEFT_STICK''] \<and>
   \<not> subseq [''SCREENSHOT'', ''LEFT_STICK''] (map ButtonKeys_name ButtonKeys_members)"
proof -
  have "\<not> subseq [''SCREENSHOT'', ''LEFT_STICK''] (map ButtonKeys_name ButtonKeys_members)"
    by (simp add: ButtonKeys_members_def list_emb_code)
  moreover have "frames pressed_pad (Suc (pumps pressed_pad)) = stick_and_screenshot"
    by (simp add: pressed_pad_def xbox_pad_def)
  then have "get_pressed_buttons (buttons (fst (projr (get_state xbox_adapter pressed_pad)))) =
     [''SCREENSHOT'', ''LEFT_STICK'']"
    by (simp add: get_state_eq get_pressed_buttons_polled stick_and_screenshot_def
        scenario_readings_def)
  moreover have "\<not> isl (get_state xbox_adapter pressed_pad)"
    by (simp add: get_state_eq)
  ultimately show ?thesis
    using init_pressed_pad by simp
qed

text \<open>
  Claim C5, amended. \<^verbatim>\<open>get_state\<close> returns; the list \<^verbatim>\<open>pressed_buttons\<close> it builds by
  iterating the button key enumeration holds the pressed keys in the declaration order
  of the enumeration; the list \<^verbatim>\<open>get_pressed_buttons\<close> gives for the returned button
  state holds the names of the pressed buttons in the order of the fields of the
  dataclass (A, B, X, Y, LB, RB, VIEW, MENU, SCREENSHOT, LEFT_STICK, RIGHT_STICK). When
  exactly A and X are pressed, both lists are A, X.
\<close>

theorem pressed_buttons_order:
  "\<exists>s ks w'. get_state_locals self w = Inr ((s, ks), w') \<and> get_state self w = Inr (s, w') \<and>
     ks = filter (\<lambda>k. button_value (frames w (Suc (pumps w))) (ButtonKeys_value k))
            ButtonKeys_members \<and>
     subseq (map ButtonKeys_name ks) (map ButtonKeys_name ButtonKeys_members) \<and>
     get_pressed_buttons (buttons s) =
       map ButtonKeys_name
         (filter (\<lambda>k. button_value (frames w (Suc (pumps w))) (ButtonKeys_value k))
            [Button_A, Button_B, Button_X, Button_Y, Button_LB, Button_RB, Button_VIEW,
             Button_MENU, Button_SCREENSHOT, Button_LEFT_STICK, Button_RIGHT_STICK]) \<and>
     ((\<forall>k. button_value (frames w (Suc (pumps w))) (ButtonKeys_value k) \<longleftrightarrow>
            k = Button_A \<or> k = Button_X) \<longrightarrow>
        map ButtonKeys_name ks = [''A'', ''X''] \<and> get_pressed_buttons (buttons s) = [''A'', ''X''])"
proof -
  define p where "p = (\<lambda>k. button_value (frames w (Suc (pumps w))) (ButtonKeys_value k))"
  define s where "s = polled_state (dead_zone self) (frames w (Suc (pumps w)))"
  define ks where "ks = filter p ButtonKeys_members"
  define w' where "w' = w\<lparr>pumps := Suc (pumps w), calls := calls w @ Pump # poll_reads\<rparr>"
  have locals: "get_state_locals self w = Inr ((s, ks), w')"
    unfolding s_def ks_def w'_def p_def by (rule get_state_locals_eq)
  have state: "get_state self w = Inr (s, w')"
    unfolding s_def w'_def by (rule get_state_eq)
  have fields_order: "get_pressed_buttons (buttons s) =
       map ButtonKeys_name
         (filter p [Button_A, Button_B, Button_X, Button_Y, Button_LB, Button_RB, Button_VIEW,
             Button_MENU, Button_SCREENSHOT, Button_LEFT_STICK, Button_RIGHT_STICK])"
    unfolding s_def p_def by (rule get_pressed_buttons_polled)
  have enum_order: "subseq (map ButtonKeys_name ks) (map ButtonKeys_name ButtonKeys_members)"
    unfolding ks_def by (rule subseq_map_filter)
  have a_and_x: "(\<forall>k. p k \<longleftrightarrow> k = Button_A \<or> k = Button_X) \<longrightarrow>
      map ButtonKeys_name ks = [''A'', ''X''] \<and> get_pressed_buttons (buttons s) = [''A'', ''X'']"
    unfolding fields_order ks_def by (simp add: ButtonKeys_members_def)
  have "get_state_locals self w = Inr ((s, ks), w') \<and> get_state self w = Inr (s, w') \<and>
     ks = filter p ButtonKeys_members \<and>
     subseq (map ButtonKeys_name ks) (map ButtonKeys_name ButtonKeys_members) \<and>
     get_pressed_buttons (buttons s) =
       map ButtonKeys_name
         (filter p [Button_A, Button_B, Button_X, Button_Y, Button_LB, Button_RB, Button_VIEW,
             Button_MENU, Button_SCREENSHOT, Button_LEFT_STICK, Button_RIGHT_STICK]) \<and>
     ((\<forall>k. p k \<longleftrightarrow> k = Button_A \<or> k = Button_X) \<longrightarrow>
        map ButtonKeys_name ks = [''A'', ''X''] \<and> get_pressed_buttons (buttons s) = [''A'', ''X''])"
    using locals state fields_order enum_order a_and_x ks_def by (intro conjI)
  then show ?thesis
    unfolding p_def by (intro exI)
qed

theorem pressed_buttons_order_witness:
  "(\<forall>k. button_value (frames xbox_pad (Suc (pumps xbox_pad))) (ButtonKeys_value k) \<longleftrightarrow>
        k = Button_A \<or> k = Button_X) \<and>
   (\<exists>s ks w'. get_state_locals xbox_adapter xbox_pad = Inr ((s, ks), w') \<and>
      get_state xbox_adapter xbox_pad = Inr (s, w') \<and>
      map ButtonKeys_name ks = [''A'', ''X''] \<and> get_pressed_buttons (buttons s) = [''A'', ''X''])"
proof -
  have only: "\<forall>k. button_value (frames xbox_pad (Suc (pumps xbox_pad))) (ButtonKeys_value k) \<longleftrightarrow>
        k = Button_A \<or> k = Button_X"
    by (simp add: xbox_pad_def scenario_readings_def A_and_X_only)
  from pressed_buttons_order [of xbox_adapter xbox_pad]
  have "\<exists>s ks w'. get_state_locals xbox_adapter xbox_pad = Inr ((s, ks), w') \<and>
      get_state xbox_adapter xbox_pad = Inr (s, w') \<and>
      map ButtonKeys_name ks = [''A'', ''X''] \<and> get_pressed_buttons (buttons s) = [''A'', ''X'']"
  proof (elim exE conjE)
    fix s ks w'
    assume locals: "get_state_locals xbox_adapter xbox_pad = Inr ((s, ks), w')"
      and state: "get_state xbox_adapter xbox_pad = Inr (s, w')"
      and a_and_x: "(\<forall>k. button_value (frames xbox_pad (Suc (pumps xbox_pad))) (ButtonKeys_value k) \<longleftrightarrow>
            k = Button_A \<or> k = Button_X) \<longrightarrow>
        map ButtonKeys_name ks = [''A'', ''X''] \<and> get_pressed_buttons (buttons s) = [''A'', ''X'']"
    from a_and_x only
    have "map ButtonKeys_name ks = [''A'', ''X''] \<and> get_pressed_buttons (buttons s) = [''A'', ''X'']"
      by (rule mp)
    with locals state show ?thesis
      by (intro exI [of _ s] exI [of _ ks] exI [of _ w'] conjI) simp_all
  qed
  with only show ?thesis
    by (intro conjI)
qed

subsection \<open>Directional pad\<close>

text \<open>
  Claim C6. Whatever pair (h, v) the hat 0 reads, \<^verbatim>\<open>get_state\<close> returns a d-pad state
  with horizontal h and vertical v, on every adapter, so under every dead zone: the
  dead-zone rule is not applied to the d-pad.
\<close>

theorem d_pad_passthrough:
  assumes "hat_value (frames w (Suc (pumps w))) 0 = (h, v)"
  shows "\<exists>s w'. get_state self w = Inr (s, w') \<and> d_pad s = \<lparr>horizontal = h, vertical = v\<rparr>"
  using assms by (simp add: get_state_eq polled_state_def)

theorem d_pad_passthrough_witness:
  "hat_value (frames xbox_pad (Suc (pumps xbox_pad))) 0 = (1, - 1) \<and>
   (\<exists>s w'. get_state xbox_adapter xbox_pad = Inr (s, w') \<and>
      d_pad s = \<lparr>horizontal = 1, vertical = - 1\<rparr>)"
proof -
  have hat: "hat_value (frames xbox_pad (Suc (pumps xbox_pad))) 0 = (1, - 1)"
    by (simp add: xbox_pad_def scenario_readings_def)
  from hat d_pad_passthrough [OF hat, of xbox_adapter] show ?thesis
    by (intro conjI)
qed

subsection \<open>Repeated polls\<close>

text \<open>
  Claim C7. When the readings visible after the pump of a second call are those visible
  after the pump of the first, two successive calls of \<^verbatim>\<open>get_state\<close> on the same adapter
  both return, and return equal states, although the first call has changed the
  joystick (one more pump, a longer record of calls).
\<close>

theorem get_state_repeatable:
  assumes "frames w (Suc (Suc (pumps w))) = frames w (Suc (pumps w))"
  shows "\<exists>s w1 w2. get_state self w = Inr (s, w1) \<and> get_state self w1 = Inr (s, w2)"
  using assms by (simp add: get_state_eq)

theorem get_state_repeatable_witness:
  "frames xbox_pad (Suc (Suc (pumps xbox_pad))) = frames xbox_pad (Suc (pumps xbox_pad)) \<and>
   (\<exists>s w1 w2. get_state xbox_adapter xbox_pad = Inr (s, w1) \<and>
      get_state xbox_adapter w1 = Inr (s, w2))"
proof -
  have stable: "frames xbox_pad (Suc (Suc (pumps xbox_pad))) = frames xbox_pad (Suc (pumps xbox_pad))"
    by (simp add: xbox_pad_def)
  from stable get_state_repeatable [OF stable, of xbox_adapter] show ?thesis
    by (intro conjI)
qed

subsection \<open>Calls made on the joystick\<close>

text \<open>
  Claim C8. Every call of \<^verbatim>\<open>get_state\<close>, on every adapter and every joystick, returns
  after exactly one event pump, made before any read, followed by reads only: each of the
  six axis keys, each of the eleven button keys and the hat 0 is read. Nothing is kept
  from one call to the next: a second call on the joystick the first one leaves pumps once
  more and makes all the reads again.
\<close>

theorem one_pump_then_reads:
  "\<exists>s w' reads. get_state self w = Inr (s, w') \<and>
     pumps w' = pumps w + 1 \<and>
     calls w' = calls w @ Pump # reads \<and>
     reads = map GetAxis [0, 1, 2, 3, 4, 5] @ map GetButton [0, 1, 2, 3, 4, 5, 6, 7, 11, 8, 9]
               @ GetHat 0 # map GetButton [0, 1, 2, 3, 4, 5, 6, 7, 8, 9, 11] \<and>
     Pump \<notin> set reads \<and>
     (\<forall>k \<in> set AxisKeys_members. GetAxis (AxisKeys_value k) \<in> set reads) \<and>
     (\<forall>k \<in> set ButtonKeys_members. GetButton (ButtonKeys_value k) \<in> set reads) \<and>
     GetHat 0 \<in> set reads \<and>
     (\<exists>s2 w2. get_state self w' = Inr (s2, w2) \<and> pumps w2 = pumps w' + 1 \<and>
        calls w2 = calls w' @ Pump # reads)"
proof -
  define w' where "w' = w\<lparr>pumps := Suc (pumps w), calls := calls w @ Pump # poll_reads\<rparr>"
  have first: "get_state self w = Inr (polled_state (dead_zone self) (frames w (Suc (pumps w))), w')"
    unfolding w'_def by (rule get_state_eq)
  have pumped: "pumps w' = pumps w + 1"
    by (simp add: w'_def)
  have logged: "calls w' = calls w @ Pump # poll_reads"
    by (simp add: w'_def)
  have reads: "poll_reads =
      map GetAxis [0, 1, 2, 3, 4, 5] @ map GetButton [0, 1, 2, 3, 4, 5, 6, 7, 11, 8, 9]
        @ GetHat 0 # map GetButton [0, 1, 2, 3, 4, 5, 6, 7, 8, 9, 11]"
    by (rule poll_reads_def)
  have no_pump: "Pump \<notin> set poll_reads"
    by (simp add: poll_reads_def)
  have all_axes: "\<forall>k \<in> set AxisKeys_members. GetAxis (AxisKeys_value k) \<in> set poll_reads"
    by (simp add: poll_reads_def AxisKeys_members_def)
  have all_buttons: "\<forall>k \<in> set ButtonKeys_members. GetButton (ButtonKeys_value k) \<in> set poll_reads"
    by (simp add: poll_reads_def ButtonKeys_members_def)
  have the_hat: "GetHat 0 \<in> set poll_reads"
    by (simp add: poll_reads_def)
  have again: "\<exists>s2 w2. get_state self w' = Inr (s2, w2) \<and> pumps w2 = pumps w' + 1 \<and>
      calls w2 = calls w' @ Pump # poll_reads"
    by (simp add: get_state_eq)
  show ?thesis
    by (rule exI [of _ "polled_state (dead_zone self) (frames w (Suc (pumps w)))"],
        rule exI [of _ w'], rule exI [of _ poll_reads], intro conjI)
      (rule first pumped logged reads no_pump all_axes all_buttons the_hat again)+
qed

theorem one_pump_then_reads_witness:
  "set AxisKeys_members \<noteq> {} \<and> set ButtonKeys_members \<noteq> {} \<and>
   (\<exists>s w'. get_state xbox_adapter xbox_pad = Inr (s, w') \<and> pumps w' = 1 \<and>
      calls w' =
        Pump # map GetAxis [0, 1, 2, 3, 4, 5] @ map GetButton [0, 1, 2, 3, 4, 5, 6, 7, 11, 8, 9]
          @ GetHat 0 # map GetButton [0, 1, 2, 3, 4, 5, 6, 7, 8, 9, 11])"
proof -
  have nonempty: "set AxisKeys_members \<noteq> {} \<and> set ButtonKeys_members \<noteq> {}"
    by (simp add: AxisKeys_members_def ButtonKeys_members_def)
  from one_pump_then_reads [of xbox_adapter xbox_pad]
  have "\<exists>s w'. get_state xbox_adapter xbox_pad = Inr (s, w') \<and> pumps w' = 1 \<and>
      calls w' =
        Pump # map GetAxis [0, 1, 2, 3, 4, 5] @ map GetButton [0, 1, 2, 3, 4, 5, 6, 7, 11, 8, 9]
          @ GetHat 0 # map GetButton [0, 1, 2, 3, 4, 5, 6, 7, 8, 9, 11]"
  proof (elim exE conjE)
    fix s w' reads
    assume "get_state xbox_adapter xbox_pad = Inr (s, w')"
      and "pumps w' = pumps xbox_pad + 1"
      and "calls w' = calls xbox_pad @ Pump # reads"
      and "reads = map GetAxis [0, 1, 2, 3, 4, 5] @ map GetButton [0, 1, 2, 3, 4, 5, 6, 7, 11, 8, 9]
               @ GetHat 0 # map GetButton [0, 1, 2, 3, 4, 5, 6, 7, 8, 9, 11]"
    then show ?thesis
      by (intro exI [of _ s] exI [of _ w'] conjI) (simp_all add: xbox_pad_def)
  qed
  with nonempty show ?thesis
    by (intro conjI) simp_all
qed

subsection \<open>Messages of construction failures\<close>

text \<open>
  Claim C9, as stated, fails on an unsupported platform. On the platform \<^verbatim>\<open>linux\<close> the
  constructor raises with the fixed message below, which holds neither the detected
  platform nor the name of the detected device.
\<close>

theorem failure_message_counterexample:
  "init ''linux'' xbox_pad =
     Inl (ValueError ''This class is only supported on Windows systems'') \<and>
   \<not> contains ''This class is only supported on Windows systems'' ''linux'' \<and>
   \<not> contains ''This class is only supported on Windows systems'' (get_name xbox_pad)"
  by (simp add: init_def Let_def xbox_pad_def)

text \<open>
  Claim C9, amended. On a platform whose name does not start with \<^verbatim>\<open>win\<close> the
  constructor raises a \<^verbatim>\<open>ValueError\<close> with the fixed message
  \<^verbatim>\<open>This class is only supported on Windows systems\<close>. On a Windows platform, a device
  whose name is not the expected one makes it raise a \<^verbatim>\<open>ValueError\<close> whose message
  includes the detected device name.
\<close>

theorem failure_message:
  "(\<not> prefix ''win'' platform \<longrightarrow>
      init platform w = Inl (ValueError ''This class is only supported on Windows systems'')) \<and>
   (prefix ''win'' platform \<and> get_name w \<noteq> ''Xbox Series X Controller'' \<longrightarrow>
      (\<exists>msg. init platform w = Inl (ValueError msg) \<and> contains msg (get_name w)))"
proof (intro conjI impI)
  assume "\<not> prefix ''win'' platform"
  then show "init platform w =
      Inl (ValueError ''This class is only supported on Windows systems'')"
    by (simp add: init_def Let_def)
next
  assume "prefix ''win'' platform \<and> get_name w \<noteq> ''Xbox Series X Controller''"
  then have "init platform w =
      Inl (ValueError (''Xbox controller not detected. Controller detected was '' @ get_name w))"
    by (simp add: init_def Let_def)
  moreover have
    "contains (''Xbox controller not detected. Controller detected was '' @ get_name w) (get_name w)"
    by (rule contains_append)
  ultimately show "\<exists>msg. init platform w = Inl (ValueError msg) \<and> contains msg (get_name w)"
    by (intro exI conjI)
qed

theorem failure_message_witness:
  "\<not> prefix ''win'' ''linux'' \<and>
   init ''linux'' xbox_pad = Inl (ValueError ''This class is only supported on Windows systems'') \<and>
   prefix ''win'' ''win32'' \<and> get_name other_pad \<noteq> ''Xbox Series X Controller'' \<and>
   (\<exists>msg. init ''win32'' other_pad = Inl (ValueError msg) \<and> contains msg ''PS4 Controller'')"
proof -
  have unsupported: "\<not> prefix ''win'' ''linux''"
    by simp
  have supported: "prefix ''win'' ''win32'' \<and> get_name other_pad \<noteq> ''Xbox Series X Controller''"
    by (simp add: other_pad_def xbox_pad_def)
  have name: "get_name other_pad = ''PS4 Controller''"
    by (simp add: other_pad_def xbox_pad_def)
  have fixed: "init ''linux'' xbox_pad =
      Inl (ValueError ''This class is only supported on Windows systems'')"
    by (rule failure_message [of "''linux''" xbox_pad, THEN conjunct1, THEN mp, OF unsupported])
  have "\<exists>msg. init ''win32'' other_pad = Inl (ValueError msg) \<and> contains msg (get_name other_pad)"
    by (rule failure_message [of "''win32''" other_pad, THEN conjunct2, THEN mp, OF supported])
  then have "\<exists>msg. init ''win32'' other_pad = Inl (ValueError msg) \<and> contains msg ''PS4 Controller''"
    unfolding name .
  with unsupported fixed supported show ?thesis
    by (intro conjI) simp_all
qed

subsection \<open>The tables built at construction\<close>

text \<open>
  Claim C10. For two adapters built by \<^verbatim>\<open>__init__\<close>, on any platforms and joysticks,
  \<^verbatim>\<open>get_state\<close> returns equal states whenever the two joysticks show the same readings
  after the pump, whatever the dictionaries and state arrays of the two adapters hold:
  both calls make the same reads at the fixed values of the keys, among them the axes 4
  and 5 and the button 11, whatever axis and button counts the devices report.
\<close>

theorem tables_do_not_matter:
  assumes "init platform1 w1 = Inr self1" and "init platform2 w2 = Inr self2"
    and "frames w1 (Suc (pumps w1)) = frames w2 (Suc (pumps w2))"
  shows "\<exists>s w1' w2' reads. get_state self1 w1 = Inr (s, w1') \<and> get_state self2 w2 = Inr (s, w2') \<and>
    calls w1' = calls w1 @ Pump # reads \<and> calls w2' = calls w2 @ Pump # reads \<and>
    GetAxis 4 \<in> set reads \<and> GetAxis 5 \<in> set reads \<and> GetButton 11 \<in> set reads"
proof -
  have dz: "dead_zone self1 = dead_zone self2"
    using assms(1,2) by (simp add: init_dead_zone)
  have fixed_indices: "GetAxis 4 \<in> set poll_reads \<and> GetAxis 5 \<in> set poll_reads \<and>
      GetButton 11 \<in> set poll_reads"
    by (simp add: poll_reads_def)
  define s where "s = polled_state (dead_zone self1) (frames w1 (Suc (pumps w1)))"
  define w1' where "w1' = w1\<lparr>pumps := Suc (pumps w1), calls := calls w1 @ Pump # poll_reads\<rparr>"
  define w2' where "w2' = w2\<lparr>pumps := Suc (pumps w2), calls := calls w2 @ Pump # poll_reads\<rparr>"
  have one: "get_state self1 w1 = Inr (s, w1')"
    unfolding s_def w1'_def by (rule get_state_eq)
  have two: "get_state self2 w2 = Inr (s, w2')"
    unfolding s_def w2'_def dz assms(3) by (rule get_state_eq)
  have "calls w1' = calls w1 @ Pump # poll_reads" and "calls w2' = calls w2 @ Pump # poll_reads"
    by (simp_all add: w1'_def w2'_def)
  with one two fixed_indices show ?thesis
    by (intro exI [of _ s] exI [of _ w1'] exI [of _ w2'] exI [of _ poll_reads] conjI) simp_all
qed

theorem tables_do_not_matter_witness:
  "init ''win32'' xbox_pad = Inr xbox_adapter \<and> init ''win32'' small_pad = Inr small_adapter \<and>
   frames xbox_pad (Suc (pumps xbox_pad)) = frames small_pad (Suc (pumps small_pad)) \<and>
   axis_ids xbox_adapter \<noteq> axis_ids small_adapter \<and>
   button_ids xbox_adapter \<noteq> button_ids small_adapter \<and>
   axis_states xbox_adapter \<noteq> axis_states small_adapter \<and>
   button_states xbox_adapter \<noteq> button_states small_adapter \<and>
   (\<exists>s w1' w2'. get_state xbox_adapter xbox_pad = Inr (s, w1') \<and>
      get_state small_adapter small_pad = Inr (s, w2'))"
proof -
  have same: "frames xbox_pad (Suc (pumps xbox_pad)) = frames small_pad (Suc (pumps small_pad))"
    by (simp add: small_pad_def)
  have differ: "axis_ids xbox_adapter \<noteq> axis_ids small_adapter \<and>
      button_ids xbox_adapter \<noteq> button_ids small_adapter \<and>
      axis_states xbox_adapter \<noteq> axis_states small_adapter \<and>
      button_states xbox_adapter \<noteq> button_states small_adapter"
    by (simp add: xbox_adapter_def small_adapter_def eval_nat_numeral)
  from tables_do_not_matter [OF init_xbox_pad init_small_pad same]
  have "\<exists>s w1' w2'. get_state xbox_adapter xbox_pad = Inr (s, w1') \<and>
      get_state small_adapter small_pad = Inr (s, w2')"
    by (elim exE conjE) (intro exI conjI)
  with init_xbox_pad init_small_pad same differ show ?thesis
    by (intro conjI) simp_all
qed

end
